theory Spec2Isabelle
  imports Main "HOL-Library.Log_Nat"
begin

section \<open>Python floats\<close>

text \<open>
  The times of \<^verbatim>\<open>read_occupancy_csv\<close> are Python floats (IEEE 754 binary64). A finite
  double is a rational number, so a double is modelled as a \<open>rat\<close>, and every arithmetic
  operation of the source rounds its exact result to the nearest number with a 53 bit
  significand, ties to even. The exponent range is not bounded: overflow to infinity,
  subnormal numbers, NaN and the sign of zero are outside the model.
\<close>

type_synonym double = rat

definition rint :: "rat \<Rightarrow> int" where
  \<comment> \<open>round to the nearest integer, ties to even (C's \<^verbatim>\<open>rint\<close>)\<close>
  "rint x = (let f = \<lfloor>x\<rfloor>; d = x - of_int f in
     if d < 1 / 2 then f else if 1 / 2 < d then f + 1 else if even f then f else f + 1)"

definition float_exponent :: "rat \<Rightarrow> int" where
  \<comment> \<open>the \<open>e\<close> with \<open>2 ^ e \<le> \<bar>x\<bar> < 2 ^ (e + 1)\<close>, for \<open>x \<noteq> 0\<close>\<close>
  "float_exponent x = (let a = \<bar>x\<bar>;
       k = bitlen (fst (quotient_of a)) - bitlen (snd (quotient_of a))
     in if 2 powi k \<le> a then k else k - 1)"

definition to_double :: "rat \<Rightarrow> double" where
  "to_double x = (if x = 0 then 0
     else let u = 2 powi (float_exponent x - 52) in of_int (rint (x / u)) * u)"

definition fadd :: "double \<Rightarrow> double \<Rightarrow> double" where
  "fadd a b = to_double (a + b)"

definition fsub :: "double \<Rightarrow> double \<Rightarrow> double" where
  "fsub a b = to_double (a - b)"

definition fmul :: "double \<Rightarrow> double \<Rightarrow> double" where
  "fmul a b = to_double (a * b)"

definition fdiv :: "double \<Rightarrow> double \<Rightarrow> double" where
  \<comment> \<open>the caller checks \<open>b \<noteq> 0\<close>: Python raises ZeroDivisionError there\<close>
  "fdiv a b = to_double (a / b)"

definition py_int :: "double \<Rightarrow> int" where
  \<comment> \<open>\<^verbatim>\<open>int(x)\<close> truncates towards zero\<close>
  "py_int x = (if 0 \<le> x then \<lfloor>x\<rfloor> else \<lceil>x\<rceil>)"

definition np_around5 :: "double \<Rightarrow> double" where
  \<comment> \<open>\<^verbatim>\<open>np.around(x, 5)\<close>: multiply by \<open>10 ^ 5\<close>, \<^verbatim>\<open>rint\<close>, divide by \<open>10 ^ 5\<close>\<close>
  "np_around5 x = fdiv (of_int (rint (fmul x 100000))) 100000"

section \<open>Data model\<close>

text \<open>
  A row of the csv file is the list of its fields, already parsed as floats
  (\<^verbatim>\<open>float(row[0])\<close> and \<^verbatim>\<open>dtype=float\<close> raise on any other field). A polygon is the
  n x 2 array of its vertices. \<^verbatim>\<open>Occupancy\<close>, \<^verbatim>\<open>Polygon\<close>, \<^verbatim>\<open>ShapeGroup\<close> and
  \<^verbatim>\<open>SetBasedPrediction\<close> belong to the commonroad library and are plain data here:
  an occupancy is its time step with its shape, a prediction is its list of occupancies.
  Their constructors are taken to succeed: what the library rejects (a polygon of fewer
  than three vertices, say) would be one more error, and the concrete sources below use
  triangles.

  \<^verbatim>\<open>ShapeGroup(shape_list)\<close> receives the list object itself, which the loop goes on
  appending to until it rebinds \<^verbatim>\<open>shape_list\<close> to a fresh list. So the lists live in
  a heap, \<^verbatim>\<open>shape_list\<close> and every shape group hold an address, and the groups are read
  through the heap when the function returns.
\<close>

datatype error =
    IndexError            \<comment> \<open>\<^verbatim>\<open>row[0]\<close> on an empty row\<close>
  | ValueError            \<comment> \<open>\<^verbatim>\<open>np.array\<close> on two rows of different lengths\<close>
  | StepSizeAssertion     \<comment> \<open>the assertion of line 99\<close>
  | IntervalAssertion     \<comment> \<open>the assertion of line 101\<close>
  | NotChronological      \<comment> \<open>the exception of line 126\<close>
  | ZeroDivisionError     \<comment> \<open>\<^verbatim>\<open>scenario_time_step/step_size\<close> with \<open>step_size = 0\<close>\<close>

type_synonym row = "double list"

type_synonym polygon = "(double \<times> double) list"

type_synonym addr = nat

datatype 's occupancy = Occupancy (time_step: int) (shape: 's)

record state =
  occupancies_cumulative :: "addr occupancy list"
  occupancies_coinciding :: "polygon occupancy list"
  shape_list :: addr
  heap :: "polygon list list"
  scenario_time_step :: double
  flag :: int
  time_buf0 :: double
  points_buffer :: "double list"

definition init_state :: state where
  \<comment> \<open>lines 80 to 88; \<^verbatim>\<open>time_buf\<close> and \<^verbatim>\<open>points_buffer\<close> are unbound until the first row sets them\<close>
  "init_state = \<lparr>occupancies_cumulative = [], occupancies_coinciding = [],
     shape_list = 0, heap = [[]], scenario_time_step = 0,
     flag = 1, time_buf0 = - 1, points_buffer = []\<rparr>"

section \<open>The reconstructor\<close>

definition grid_index :: "double \<Rightarrow> double \<Rightarrow> error + int" where
  \<comment> \<open>\<^verbatim>\<open>int(scenario_time_step/step_size)\<close>\<close>
  "grid_index g step_size =
     (if step_size = 0 then Inl ZeroDivisionError else Inr (py_int (fdiv g step_size)))"

definition shape_list_append :: "polygon \<Rightarrow> state \<Rightarrow> state" where
  \<comment> \<open>\<^verbatim>\<open>shape_list.append(current_polygon)\<close>: in place\<close>
  "shape_list_append p st =
     st\<lparr>heap := (heap st)[shape_list st := heap st ! shape_list st @ [p]]\<rparr>"

definition shape_list_reset :: "state \<Rightarrow> state" where
  \<comment> \<open>\<^verbatim>\<open>shape_list = []\<close>: a fresh list\<close>
  "shape_list_reset st = st\<lparr>shape_list := length (heap st), heap := heap st @ [[]]\<rparr>"

definition emit_cumulative :: "double \<Rightarrow> state \<Rightarrow> error + state" where
  \<comment> \<open>\<^verbatim>\<open>occupancies_cumulative.append(Occupancy(int(...), ShapeGroup(shape_list)))\<close>\<close>
  "emit_cumulative step_size st =
     (case grid_index (scenario_time_step st) step_size of
        Inl e \<Rightarrow> Inl e
      | Inr i \<Rightarrow> Inr (st\<lparr>occupancies_cumulative :=
                   occupancies_cumulative st @ [Occupancy i (shape_list st)]\<rparr>))"

definition emit_initial :: "double \<Rightarrow> double \<Rightarrow> state \<Rightarrow> error + state" where
  \<comment> \<open>lines 105 to 107\<close>
  "emit_initial step_size t0 st =
     (if scenario_time_step st = 0 \<and> t0 = 0 then emit_cumulative step_size st else Inr st)"

definition classify :: "double \<Rightarrow> double \<Rightarrow> double \<Rightarrow> polygon \<Rightarrow> state \<Rightarrow> error + state" where
  \<comment> \<open>lines 109 to 126\<close>
  "classify step_size t0 t1 current_polygon st =
     (if t1 < scenario_time_step st then Inr (shape_list_append current_polygon st)
      else if t1 = scenario_time_step st then
        (case emit_cumulative step_size (shape_list_append current_polygon st) of
           Inl e \<Rightarrow> Inl e
         | Inr st' \<Rightarrow> Inr (shape_list_reset st'))
      else if t0 \<le> scenario_time_step st then
        (case emit_cumulative step_size (shape_list_append current_polygon st) of
           Inl e \<Rightarrow> Inl e
         | Inr st' \<Rightarrow> Inr (shape_list_append current_polygon (shape_list_reset st')))
      else Inl NotChronological)"

definition emit_coinciding :: "double \<Rightarrow> double \<Rightarrow> double \<Rightarrow> polygon \<Rightarrow> state \<Rightarrow> error + state" where
  \<comment> \<open>lines 128 to 130\<close>
  "emit_coinciding step_size t0 t1 current_polygon st =
     (if scenario_time_step st \<le> t1 \<and> t0 \<le> scenario_time_step st then
        (case grid_index (scenario_time_step st) step_size of
           Inl e \<Rightarrow> Inl e
         | Inr i \<Rightarrow> Inr (st\<lparr>occupancies_coinciding :=
                      occupancies_coinciding st @ [Occupancy i current_polygon],
                    scenario_time_step := fadd (scenario_time_step st) step_size\<rparr>))
      else Inr st)"

definition validate :: "double \<Rightarrow> double \<Rightarrow> double \<Rightarrow> error option" where
  \<comment> \<open>lines 97 to 101\<close>
  "validate step_size t0 t1 =
     (let step_size_prediction = np_around5 (fsub t1 t0) in
      if \<not> step_size_prediction \<le> step_size then Some StepSizeAssertion
      else if \<not> 0 \<le> step_size_prediction then Some IntervalAssertion
      else None)"

definition process_pair :: "double \<Rightarrow> double \<Rightarrow> double list \<Rightarrow> state \<Rightarrow> error + state" where
  \<comment> \<open>lines 95 to 130: the second row of a pair, with time \<open>t1\<close> and fields \<open>ys\<close>\<close>
  "process_pair step_size t1 ys st =
     (if length (points_buffer st) \<noteq> length ys then Inl ValueError
      else case validate step_size (time_buf0 st) t1 of
        Some e \<Rightarrow> Inl e
      | None \<Rightarrow>
         (let current_polygon = zip (points_buffer st) ys in
          case emit_initial step_size (time_buf0 st) st of
            Inl e \<Rightarrow> Inl e
          | Inr st1 \<Rightarrow>
             (case classify step_size (time_buf0 st) t1 current_polygon st1 of
                Inl e \<Rightarrow> Inl e
              | Inr st2 \<Rightarrow> emit_coinciding step_size (time_buf0 st) t1 current_polygon st2)))"

definition loop_body :: "double \<Rightarrow> row \<Rightarrow> state \<Rightarrow> error + state" where
  \<comment> \<open>lines 90 to 132\<close>
  "loop_body step_size r st =
     (case
        (if flag st = 1 then
           (case r of [] \<Rightarrow> Inl IndexError
            | t # xs \<Rightarrow> Inr (st\<lparr>time_buf0 := t, points_buffer := xs\<rparr>))
         else if flag st = - 1 then
           (case r of [] \<Rightarrow> Inl IndexError
            | t # ys \<Rightarrow> process_pair step_size t ys st)
         else Inr st)
      of Inl e \<Rightarrow> Inl e
       | Inr st' \<Rightarrow> Inr (st'\<lparr>flag := flag st' * - 1\<rparr>))"

fun process_rows :: "double \<Rightarrow> row list \<Rightarrow> state \<Rightarrow> error + state" where
  "process_rows step_size [] st = Inr st"
| "process_rows step_size (r # rs) st =
     (case loop_body step_size r st of
        Inl e \<Rightarrow> Inl e
      | Inr st' \<Rightarrow> process_rows step_size rs st')"

definition coinciding_prediction :: "state \<Rightarrow> polygon occupancy list" where
  "coinciding_prediction st = occupancies_coinciding st"

definition cumulative_prediction :: "state \<Rightarrow> polygon list occupancy list" where
  \<comment> \<open>each shape group read through the heap\<close>
  "cumulative_prediction st =
     map (\<lambda>oc. Occupancy (time_step oc) (heap st ! shape oc)) (occupancies_cumulative st)"

definition read_occupancy_csv ::
    "row list \<Rightarrow> double \<Rightarrow> error + polygon occupancy list \<times> polygon list occupancy list" where
  "read_occupancy_csv rows step_size =
     (case process_rows step_size rows init_state of
        Inl e \<Rightarrow> Inl e
      | Inr st \<Rightarrow> Inr (coinciding_prediction st, cumulative_prediction st))"

section \<open>The grid of a run\<close>

text \<open>
  \<open>grid_time step_size k\<close> is \<^verbatim>\<open>scenario_time_step\<close> after \<open>k\<close> executions of line 130,
  each of them one floating-point addition, and \<open>grid_idx step_size k\<close> is the time step
  that lines 107, 115, 121 and 129 compute from it. \<open>exact_grid step_size n\<close> says that
  this quotient, truncated, is \<open>k\<close> itself for every \<open>k\<close> up to \<open>n\<close>.
\<close>

primrec grid_time :: "double \<Rightarrow> nat \<Rightarrow> double" where
  "grid_time step_size 0 = 0"
| "grid_time step_size (Suc k) = fadd (grid_time step_size k) step_size"

definition grid_idx :: "double \<Rightarrow> nat \<Rightarrow> int" where
  "grid_idx step_size k = py_int (fdiv (grid_time step_size k) step_size)"

definition exact_grid :: "double \<Rightarrow> nat \<Rightarrow> bool" where
  "exact_grid step_size n = list_all (\<lambda>k. grid_idx step_size k = int k) [0..<Suc n]"

definition grid_inv :: "double \<Rightarrow> state \<Rightarrow> bool" where
  "grid_inv s st \<longleftrightarrow>
     scenario_time_step st = grid_time s (length (occupancies_coinciding st)) \<and>
     map time_step (occupancies_coinciding st) =
       map (grid_idx s) [0..<length (occupancies_coinciding st)] \<and>
     (\<exists>ks. map time_step (occupancies_cumulative st) = map (grid_idx s) ks \<and> sorted ks \<and>
        (\<forall>k\<in>set ks. k \<le> length (occupancies_coinciding st)))"

definition sub_inv :: "state \<Rightarrow> bool" where
  "sub_inv st \<longleftrightarrow> time_step ` set (occupancies_coinciding st) \<subseteq>
     time_step ` set (occupancies_cumulative st)"

section \<open>Example sources\<close>

text \<open>
  Scenario A of the specification, with two triangles: the intervals \<open>[0, 1]\<close> and
  \<open>[1, 2]\<close>.
\<close>

definition scenario_A :: "row list" where
  "scenario_A = [[0, 0, 1, 0], [1, 0, 0, 1], [1, 1, 2, 1], [2, 0, 0, 1]]"

text \<open>
  A source whose first interval \<open>[-2, -1]\<close> lies before the grid and whose second interval
  starts at \<open>0\<close>: the state of the loop after the first row of the second pair.
\<close>

definition late_start :: "row list" where
  "late_start = [[- 2, 0, 1, 0], [- 1, 0, 0, 1], [0, 1, 2, 1]]"

definition late_start_state :: state where
  "late_start_state = \<lparr>occupancies_cumulative = [], occupancies_coinciding = [],
     shape_list = 0, heap = [[[(0, 0), (1, 0), (0, 1)]]],
     scenario_time_step = 0, flag = - 1, time_buf0 = 0, points_buffer = [1, 2, 1]\<rparr>"

text \<open>
  Seven intervals of length \<open>0.1\<close>, from \<open>[0, 0.1]\<close> to \<open>[0.6, 0.7]\<close>, each with the
  same triangle: \<^verbatim>\<open>float\<close> reads every time as the double nearest to the decimal.
\<close>

definition tenths :: "row list" where
  "tenths =
     [[0, 0, 1, 0], [to_double (1 / 10), 0, 0, 1],
      [to_double (1 / 10), 0, 1, 0], [to_double (2 / 10), 0, 0, 1],
      [to_double (2 / 10), 0, 1, 0], [to_double (3 / 10), 0, 0, 1],
      [to_double (3 / 10), 0, 1, 0], [to_double (4 / 10), 0, 0, 1],
      [to_double (4 / 10), 0, 1, 0], [to_double (5 / 10), 0, 0, 1],
      [to_double (5 / 10), 0, 1, 0], [to_double (6 / 10), 0, 0, 1],
      [to_double (6 / 10), 0, 1, 0], [to_double (7 / 10), 0, 0, 1]]"

text \<open>
  The first six of these intervals, followed by the first row of an interval of length
  zero at \<open>0.6\<close>, with another triangle.
\<close>

definition on_grid_point :: "row list" where
  "on_grid_point =
     [[0, 0, 1, 0], [to_double (1 / 10), 0, 0, 1],
      [to_double (1 / 10), 0, 1, 0], [to_double (2 / 10), 0, 0, 1],
      [to_double (2 / 10), 0, 1, 0], [to_double (3 / 10), 0, 0, 1],
      [to_double (3 / 10), 0, 1, 0], [to_double (4 / 10), 0, 0, 1],
      [to_double (4 / 10), 0, 1, 0], [to_double (5 / 10), 0, 0, 1],
      [to_double (5 / 10), 0, 1, 0], [to_double (6 / 10), 0, 0, 1],
      [to_double (6 / 10), 1, 2, 1]]"

section \<open>Floating-point facts\<close>

lemma to_double_0 [simp]: "to_double 0 = 0"
  by (simp add: to_double_def)

lemma rint_0 [simp]: "rint 0 = 0"
  by (simp add: rint_def)

lemma fdiv_0 [simp]: "fdiv 0 s = 0"
  by (simp add: fdiv_def)

lemma py_int_0 [simp]: "py_int 0 = 0"
  by (simp add: py_int_def)

lemma np_around5_same: "np_around5 (fsub t t) = 0"
  by (simp add: np_around5_def fsub_def fmul_def fdiv_def)

lemma unit_grid:
  "validate 1 0 1 = None" "validate 1 1 2 = None"
  "grid_index 0 1 = Inr 0" "grid_index 1 1 = Inr 1"
  "fadd 0 1 = 1" "fadd 1 1 = 2"
  by code_simp+

section \<open>The loop\<close>

lemma process_rows_append:
  "process_rows s (xs @ ys) st =
     (case process_rows s xs st of Inl e \<Rightarrow> Inl e | Inr st' \<Rightarrow> process_rows s ys st')"
  by (induction xs arbitrary: st) (auto split: sum.splits)

lemma emit_cumulative_Inr:
  "emit_cumulative s st = Inr st' \<longleftrightarrow>
     s \<noteq> 0 \<and> st' = st\<lparr>occupancies_cumulative := occupancies_cumulative st @
       [Occupancy (py_int (fdiv (scenario_time_step st) s)) (shape_list st)]\<rparr>"
  by (auto simp: emit_cumulative_def grid_index_def)

lemma emit_cumulative_error:
  "emit_cumulative s st = Inl e \<Longrightarrow> e = ZeroDivisionError"
  by (auto simp: emit_cumulative_def grid_index_def split: if_splits)

lemma emit_initial_error:
  "emit_initial s t0 st = Inl e \<Longrightarrow> e = ZeroDivisionError"
  by (auto simp: emit_initial_def split: if_splits dest: emit_cumulative_error)

lemma emit_initial_later:
  "scenario_time_step st < t0 \<Longrightarrow> emit_initial s t0 st = Inr st"
  by (auto simp: emit_initial_def)

lemma emit_coinciding_error:
  "emit_coinciding s t0 t1 p st = Inl e \<Longrightarrow> e = ZeroDivisionError"
  by (auto simp: emit_coinciding_def grid_index_def split: if_splits)

lemma process_pair_frame:
  "process_pair s t ys st = Inr st' \<Longrightarrow>
     flag st' = flag st \<and> time_buf0 st' = time_buf0 st \<and> points_buffer st' = points_buffer st"
  by (auto simp: process_pair_def emit_initial_def classify_def emit_coinciding_def
      emit_cumulative_Inr shape_list_append_def shape_list_reset_def grid_index_def Let_def
      split: if_splits option.splits sum.splits)

lemma loop_body_flag:
  "loop_body s r st = Inr st' \<Longrightarrow> flag st' = - flag st"
  by (auto simp: loop_body_def split: sum.splits if_splits list.splits
      dest: process_pair_frame)

lemma process_rows_flag:
  "process_rows s rows st = Inr st' \<Longrightarrow>
     flag st' = (if even (length rows) then flag st else - flag st)"
proof (induction rows arbitrary: st)
  case Nil
  then show ?case by simp
next
  case (Cons r rows)
  from Cons.prems obtain st1 where b: "loop_body s r st = Inr st1"
    and rest: "process_rows s rows st1 = Inr st'"
    by (auto split: sum.splits)
  from Cons.IH [OF rest] loop_body_flag [OF b] show ?case by simp
qed

lemma init_state_flag: "flag init_state = 1"
  by (simp add: init_state_def)

lemma loop_body_first_row:
  "flag st = 1 \<Longrightarrow>
     loop_body s (t # xs) st = Inr (st\<lparr>time_buf0 := t, points_buffer := xs, flag := - 1\<rparr>)"
  by (simp add: loop_body_def)

lemma loop_body_second_row:
  "flag st = - 1 \<Longrightarrow>
     loop_body s (t # ys) st =
       (case process_pair s t ys st of
          Inl e \<Rightarrow> Inl e
        | Inr st' \<Rightarrow> Inr (st'\<lparr>flag := flag st' * - 1\<rparr>))"
  by (simp add: loop_body_def)

lemma isl_read_occupancy_csv:
  "isl (read_occupancy_csv rows s) = isl (process_rows s rows init_state)"
  by (simp add: read_occupancy_csv_def split: sum.splits)

subsection \<open>Validation\<close>

lemma validate_step_size:
  "validate s t0 t1 = Some StepSizeAssertion \<longleftrightarrow> s < np_around5 (fsub t1 t0)"
  by (auto simp: validate_def Let_def)

lemma validate_None:
  "validate s t0 t1 = None \<longleftrightarrow> 0 \<le> np_around5 (fsub t1 t0) \<and> np_around5 (fsub t1 t0) \<le> s"
  by (auto simp: validate_def Let_def)

lemma validate_not_chronological: "validate s t0 t1 \<noteq> Some NotChronological"
  by (simp add: validate_def Let_def)

lemma process_pair_invalid:
  "validate s (time_buf0 st) t1 \<noteq> None \<Longrightarrow> isl (process_pair s t1 ys st)"
  by (auto simp: process_pair_def)

text \<open>
  A pair that fails the validation ends the run with an error, wherever it stands in the
  source: either an earlier row has raised already, or the pair is reached with
  \<open>flag = 1\<close> and its second row raises.
\<close>

lemma invalid_pair_fails:
  assumes ev: "even (length pre)" and bad: "validate s t0 t1 \<noteq> None"
  shows "isl (process_rows s (pre @ (t0 # xs) # (t1 # ys) # post) init_state)"
proof (cases "process_rows s pre init_state")
  case (Inl e)
  then show ?thesis by (simp add: process_rows_append)
next
  case (Inr st)
  from process_rows_flag [OF Inr] ev have f: "flag st = 1"
    by (simp add: init_state_flag)
  let ?st1 = "st\<lparr>time_buf0 := t0, points_buffer := xs, flag := - 1\<rparr>"
  have "isl (process_pair s t1 ys ?st1)"
    using bad by (intro process_pair_invalid) simp
  then have "isl (loop_body s (t1 # ys) ?st1)"
    by (auto simp: loop_body_second_row split: sum.splits)
  then show ?thesis
    using Inr f by (auto simp: process_rows_append loop_body_first_row split: sum.splits)
qed

section \<open>Row pairing\<close>

text \<open>
  C3 (amended). The source has no check of the number of rows. A last row without a partner
  only fills \<^verbatim>\<open>time_buf[0]\<close> and \<^verbatim>\<open>points_buffer\<close>, which nothing reads afterwards:
  provided the row has a time field, a source with an odd number of rows gives exactly
  the result of the source without its last row, an error where that one gives an error
  and the same two sequences otherwise.
\<close>

theorem trailing_row_ignored:
  assumes "even (length rows)" and "r \<noteq> []"
  shows "read_occupancy_csv (rows @ [r]) s = read_occupancy_csv rows s"
proof (cases "process_rows s rows init_state")
  case (Inl e)
  then show ?thesis by (simp add: read_occupancy_csv_def process_rows_append)
next
  case (Inr st)
  from process_rows_flag [OF Inr] assms(1) have f: "flag st = 1"
    by (simp add: init_state_flag)
  from assms(2) obtain t xs where r: "r = t # xs" by (cases r) auto
  show ?thesis
    using Inr f unfolding r
    by (simp add: read_occupancy_csv_def process_rows_append loop_body_first_row
        coinciding_prediction_def cumulative_prediction_def)
qed

theorem trailing_row_ignored_witness:
  "even (length [[0, 0, 1, 0], [1, 0, 0, 1 :: double]]) \<and> [5, 1, 2, 1 :: double] \<noteq> [] \<and>
   read_occupancy_csv ([[0, 0, 1, 0], [1, 0, 0, 1]] @ [[5, 1, 2, 1]]) 1 =
     read_occupancy_csv [[0, 0, 1, 0], [1, 0, 0, 1]] 1"
  using trailing_row_ignored [of "[[0, 0, 1, 0], [1, 0, 0, 1]]" "[5, 1, 2, 1]" 1] by simp

text \<open>
  C3 as stated fails: a source of three rows is read without any error, and the result
  is that of its first two rows.
\<close>

theorem odd_row_count_accepted:
  "odd (length [[0, 0, 1, 0], [1, 0, 0, 1], [5, 1, 2, 1 :: double]]) \<and>
   read_occupancy_csv [[0, 0, 1, 0], [1, 0, 0, 1], [5, 1, 2, 1]] 1 =
     Inr ([Occupancy 0 [(0, 0), (1, 0), (0, 1)]],
          [Occupancy 0 [[(0, 0), (1, 0), (0, 1)]], Occupancy 0 [[(0, 0), (1, 0), (0, 1)]]])"
  by code_simp

section \<open>Validation of an interval\<close>

text \<open>
  C4 (amended). Line 101 compares the duration after \<^verbatim>\<open>np.around(..., 5)\<close>, not the
  times themselves. Every record pair whose rounded duration \<open>round(t1 - t0, 5)\<close> is
  negative ends the run with an error, whatever precedes and follows it in the source,
  so no sequence is returned.
\<close>

theorem negative_duration_rejected:
  assumes "even (length pre)" and "np_around5 (fsub t1 t0) < 0"
  shows "isl (read_occupancy_csv (pre @ (t0 # xs) # (t1 # ys) # post) s)"
proof -
  from assms(2) have "validate s t0 t1 \<noteq> None"
    by (simp add: validate_None)
  from invalid_pair_fails [OF assms(1) this] show ?thesis
    by (simp add: isl_read_occupancy_csv)
qed

theorem negative_duration_rejected_witness:
  "even (length ([] :: row list)) \<and> np_around5 (fsub 0 1) < 0 \<and>
   isl (read_occupancy_csv ([] @ [1, 0, 1, 0] # [0, 0, 0, 1] # []) 1)"
proof -
  have h: "np_around5 (fsub 0 1) < 0" by code_simp
  have e: "even (length ([] :: row list))" by simp
  from negative_duration_rejected [OF e h] e h show ?thesis by blast
qed

text \<open>
  C4 as stated fails: the second interval below runs from \<open>1.000001\<close> to \<open>1\<close>, so it
  ends before it starts; its duration rounds to zero, the assertion of line 101 holds,
  and the run returns its two sequences.
\<close>

theorem small_negative_duration_accepted:
  "(1 :: double) < to_double (1000001 / 1000000) \<and>
   read_occupancy_csv
     [[0, 0, 1, 0], [1, 0, 0, 1], [to_double (1000001 / 1000000), 1, 2, 1], [1, 0, 0, 1]] 1 =
     Inr ([Occupancy 0 [(0, 0), (1, 0), (0, 1)]],
          [Occupancy 0 [[(0, 0), (1, 0), (0, 1)]], Occupancy 0 [[(0, 0), (1, 0), (0, 1)]],
           Occupancy 1 [[(0, 0), (1, 0), (0, 1)], [(1, 0), (2, 0), (1, 1)]]])"
  by code_simp

text \<open>
  C5. The assertion of line 99 fails exactly when the duration rounded to 5 decimals
  exceeds the step size, so a pair with \<open>step_size \<ge> round(t1 - t0, 5)\<close> passes it; and
  a pair that exceeds the step size ends the run with an error wherever it stands.
\<close>

theorem step_size_validation:
  "(validate s t0 t1 = Some StepSizeAssertion \<longleftrightarrow> s < np_around5 (fsub t1 t0)) \<and>
   (s < np_around5 (fsub t1 t0) \<and> even (length pre) \<longrightarrow>
      isl (read_occupancy_csv (pre @ (t0 # xs) # (t1 # ys) # post) s))"
proof -
  have "isl (read_occupancy_csv (pre @ (t0 # xs) # (t1 # ys) # post) s)"
    if "s < np_around5 (fsub t1 t0)" "even (length pre)"
  proof -
    from that(1) have "validate s t0 t1 \<noteq> None"
      by (simp add: validate_None)
    from invalid_pair_fails [OF that(2) this] show ?thesis
      by (simp add: isl_read_occupancy_csv)
  qed
  then show ?thesis by (simp add: validate_step_size)
qed

theorem step_size_validation_witness:
  "(1 :: double) < np_around5 (fsub 3 0) \<and> even (length ([] :: row list)) \<and>
   validate 1 0 3 = Some StepSizeAssertion \<and>
   isl (read_occupancy_csv ([] @ [0, 0, 1, 0] # [3, 0, 0, 1] # []) 1)"
proof -
  have h: "(1 :: double) < np_around5 (fsub 3 0)" by code_simp
  have e: "even (length ([] :: row list))" by simp
  from step_size_validation [of 1 0 3 "[]" "[0, 1, 0]" "[0, 0, 1]" "[]"] e h
  show ?thesis by blast
qed

section \<open>Classification against the grid time\<close>

text \<open>
  C7. The chain of lines 109 to 126 raises the chronological-order exception exactly when
  both times of the interval lie strictly after the grid time; in the three other cases
  (\<open>t1 < g\<close>, \<open>t1 = g\<close>, \<open>t0 \<le> g < t1\<close>) it does not. For the second row of a pair as a
  whole, that exception is raised exactly when the pair is well-formed, passes the
  validation and has both times after the grid time.
\<close>

theorem chronological_error_iff:
  "(classify s t0 t1 p st = Inl NotChronological \<longleftrightarrow>
      scenario_time_step st < t0 \<and> scenario_time_step st < t1) \<and>
   (process_pair s t1 ys st = Inl NotChronological \<longleftrightarrow>
      length (points_buffer st) = length ys \<and> validate s (time_buf0 st) t1 = None \<and>
      scenario_time_step st < time_buf0 st \<and> scenario_time_step st < t1)"
proof -
  have c: "classify s t0 t1 p st = Inl NotChronological \<longleftrightarrow>
      scenario_time_step st < t0 \<and> scenario_time_step st < t1" for t0 p st
    by (auto simp: classify_def split: sum.splits dest: emit_cumulative_error)
  have "process_pair s t1 ys st = Inl NotChronological"
    if "length (points_buffer st) = length ys" "validate s (time_buf0 st) t1 = None"
      "scenario_time_step st < time_buf0 st" "scenario_time_step st < t1"
  proof -
    from that(3,4) have "classify s (time_buf0 st) t1 (zip (points_buffer st) ys) st =
        Inl NotChronological"
      by (simp add: c)
    with that show ?thesis
      by (simp add: process_pair_def Let_def emit_initial_later)
  qed
  moreover have "length (points_buffer st) = length ys \<and>
      validate s (time_buf0 st) t1 = None \<and>
      scenario_time_step st < time_buf0 st \<and> scenario_time_step st < t1"
    if "process_pair s t1 ys st = Inl NotChronological"
    using that validate_not_chronological [of s "time_buf0 st" t1]
    by (auto simp: process_pair_def Let_def c emit_initial_def emit_cumulative_Inr
        split: if_splits option.splits sum.splits
        dest: emit_initial_error emit_coinciding_error emit_cumulative_error)
  ultimately show ?thesis
    using c by blast
qed

theorem chronological_error_iff_witness:
  "classify 1 2 3 [(0, 0), (1, 0), (0, 1)] init_state = Inl NotChronological \<and>
   classify 1 0 1 [(0, 0), (1, 0), (0, 1)] init_state \<noteq> Inl NotChronological"
  using chronological_error_iff [of 1 2 3 "[(0, 0), (1, 0), (0, 1)]" init_state]
    chronological_error_iff [of 1 0 1 "[(0, 0), (1, 0), (0, 1)]" init_state]
  by (simp add: init_state_def)

text \<open>
  What lines 97 to 130 do with an interval whose two times both equal the grid time
  \<open>g\<close>, the step size being positive: one coinciding occupancy is appended, holding
  the polygon of this interval alone, with the time step \<^verbatim>\<open>int(g/step_size)\<close> as the
  floating-point arithmetic gives it, and the grid time advances by one addition of the
  step size.
\<close>

lemma interval_on_grid_time:
  assumes "0 < s" and "time_buf0 st = scenario_time_step st" and "t1 = scenario_time_step st"
    and "length (points_buffer st) = length ys"
  shows "\<exists>st'. process_pair s t1 ys st = Inr st' \<and>
     occupancies_coinciding st' = occupancies_coinciding st @
       [Occupancy (py_int (fdiv (scenario_time_step st) s)) (zip (points_buffer st) ys)] \<and>
     scenario_time_step st' = fadd (scenario_time_step st) s"
proof -
  have v: "validate s (time_buf0 st) t1 = None"
    using assms(1-3) by (simp add: validate_None np_around5_same)
  show ?thesis
    using assms v
    by (auto simp: process_pair_def emit_initial_def classify_def emit_coinciding_def
        emit_cumulative_def grid_index_def shape_list_append_def shape_list_reset_def Let_def)
qed

text \<open>
  C8. An interval whose two times both equal the time of a grid point is to give exactly
  one coinciding occupancy at the index of that grid point, with its own polygon. The
  code gives the occupancy and the polygon, but not always the index. With
  \<open>step_size = 0.1\<close>, six intervals bring the grid time to \<open>0.6\<close>, the grid point of
  index 6 (\<open>grid_time\<close> after six additions), with six coinciding occupancies at the
  time steps 0 to 5. The next interval has \<open>t0 = t1 = 0.6\<close>: its coinciding occupancy
  holds its triangle and has time step \<^verbatim>\<open>int(0.6/0.1)\<close>, which is 5 again and not 6.
\<close>

theorem interval_on_grid_point_index:
  "grid_time (to_double (1 / 10)) 6 = to_double (6 / 10) \<and>
   process_rows (to_double (1 / 10)) on_grid_point init_state =
     Inr \<lparr>occupancies_cumulative =
            [Occupancy 0 0, Occupancy 0 0, Occupancy 1 1, Occupancy 2 2,
             Occupancy 3 3, Occupancy 4 4, Occupancy 5 5],
          occupancies_coinciding =
            [Occupancy 0 [(0, 0), (1, 0), (0, 1)], Occupancy 1 [(0, 0), (1, 0), (0, 1)],
             Occupancy 2 [(0, 0), (1, 0), (0, 1)], Occupancy 3 [(0, 0), (1, 0), (0, 1)],
             Occupancy 4 [(0, 0), (1, 0), (0, 1)], Occupancy 5 [(0, 0), (1, 0), (0, 1)]],
          shape_list = 6,
          heap =
            [[[(0, 0), (1, 0), (0, 1)]],
             [[(0, 0), (1, 0), (0, 1)], [(0, 0), (1, 0), (0, 1)]],
             [[(0, 0), (1, 0), (0, 1)], [(0, 0), (1, 0), (0, 1)]],
             [[(0, 0), (1, 0), (0, 1)], [(0, 0), (1, 0), (0, 1)]],
             [[(0, 0), (1, 0), (0, 1)], [(0, 0), (1, 0), (0, 1)]],
             [[(0, 0), (1, 0), (0, 1)], [(0, 0), (1, 0), (0, 1)]],
             [[(0, 0), (1, 0), (0, 1)]]],
          scenario_time_step = to_double (6 / 10), flag = - 1,
          time_buf0 = to_double (6 / 10), points_buffer = [1, 2, 1]\<rparr> \<and>
   read_occupancy_csv (on_grid_point @ [[to_double (6 / 10), 0, 0, 1]]) (to_double (1 / 10)) =
     Inr ([Occupancy 0 [(0, 0), (1, 0), (0, 1)], Occupancy 1 [(0, 0), (1, 0), (0, 1)],
           Occupancy 2 [(0, 0), (1, 0), (0, 1)], Occupancy 3 [(0, 0), (1, 0), (0, 1)],
           Occupancy 4 [(0, 0), (1, 0), (0, 1)], Occupancy 5 [(0, 0), (1, 0), (0, 1)],
           Occupancy 5 [(1, 0), (2, 0), (1, 1)]],
          [Occupancy 0 [[(0, 0), (1, 0), (0, 1)]],
           Occupancy 0 [[(0, 0), (1, 0), (0, 1)]],
           Occupancy 1 [[(0, 0), (1, 0), (0, 1)], [(0, 0), (1, 0), (0, 1)]],
           Occupancy 2 [[(0, 0), (1, 0), (0, 1)], [(0, 0), (1, 0), (0, 1)]],
           Occupancy 3 [[(0, 0), (1, 0), (0, 1)], [(0, 0), (1, 0), (0, 1)]],
           Occupancy 4 [[(0, 0), (1, 0), (0, 1)], [(0, 0), (1, 0), (0, 1)]],
           Occupancy 5 [[(0, 0), (1, 0), (0, 1)], [(0, 0), (1, 0), (0, 1)]],
           Occupancy 5 [[(0, 0), (1, 0), (0, 1)], [(1, 0), (2, 0), (1, 1)]]])"
  by code_simp

section \<open>The initial cumulative occupancy\<close>

text \<open>
  C6 (amended). The test of line 105 is on the grid time, not on the position of the
  interval in the source. The second row of a pair that is read without error appends to
  the cumulative sequence, in this order: the initial occupancy at time step 0, sharing
  the list \<^verbatim>\<open>shape_list\<close> as it stands before the interval is classified, exactly when
  the grid time is still 0 and the interval starts at \<open>t0 = 0\<close>; then the occupancy of
  the close-out, exactly when the interval reaches the grid time. The first interval of
  a source meets an empty list (\<open>init_state\<close>); a later interval with \<open>t0 = 0\<close> that is
  read while the grid time is still 0 triggers the emission as well, with the polygons
  accumulated so far in the group.
\<close>

theorem initial_emission:
  assumes "process_pair s t1 ys st = Inr st'"
  shows "occupancies_cumulative st' = occupancies_cumulative st @
     (if scenario_time_step st = 0 \<and> time_buf0 st = 0
      then [Occupancy 0 (shape_list st)] else []) @
     (if scenario_time_step st \<le> t1
      then [Occupancy (py_int (fdiv (scenario_time_step st) s)) (shape_list st)] else [])"
  using assms
  by (auto simp: process_pair_def emit_initial_def classify_def emit_coinciding_def
      emit_cumulative_def grid_index_def shape_list_append_def shape_list_reset_def Let_def
      split: if_splits option.splits sum.splits)

theorem initial_emission_witness:
  "process_pair 1 1 [0, 0, 1] late_start_state =
     Inr \<lparr>occupancies_cumulative = [Occupancy 0 0, Occupancy 0 0],
          occupancies_coinciding = [Occupancy 0 [(1, 0), (2, 0), (1, 1)]],
          shape_list = 1,
          heap = [[[(0, 0), (1, 0), (0, 1)], [(1, 0), (2, 0), (1, 1)]],
                  [[(1, 0), (2, 0), (1, 1)]]],
          scenario_time_step = 1, flag = - 1, time_buf0 = 0, points_buffer = [1, 2, 1]\<rparr> \<and>
   occupancies_cumulative late_start_state @ [Occupancy 0 (shape_list late_start_state)] @
     [Occupancy (py_int (fdiv (scenario_time_step late_start_state) 1))
        (shape_list late_start_state)] = [Occupancy 0 0, Occupancy 0 0]"
proof -
  have h: "process_pair 1 1 [0, 0, 1] late_start_state =
     Inr \<lparr>occupancies_cumulative = [Occupancy 0 0, Occupancy 0 0],
          occupancies_coinciding = [Occupancy 0 [(1, 0), (2, 0), (1, 1)]],
          shape_list = 1,
          heap = [[[(0, 0), (1, 0), (0, 1)], [(1, 0), (2, 0), (1, 1)]],
                  [[(1, 0), (2, 0), (1, 1)]]],
          scenario_time_step = 1, flag = - 1, time_buf0 = 0, points_buffer = [1, 2, 1]\<rparr>"
    by code_simp
  from initial_emission [OF h] h show ?thesis
    by (simp add: late_start_state_def)
qed

text \<open>
  C6 as stated fails. The first interval of \<open>late_start\<close> starts at \<open>-2\<close> and emits
  nothing; the second interval starts at \<open>0\<close>, and lines 105 to 107 emit for it an
  occupancy at time step 0 whose group already holds the first triangle. With the last
  row of that pair the run returns two cumulative occupancies at time step 0.
\<close>

theorem later_interval_triggers_initial_emission:
  "process_rows 1 late_start init_state = Inr late_start_state \<and>
   emit_initial 1 0 late_start_state =
     Inr (late_start_state\<lparr>occupancies_cumulative := [Occupancy 0 0]\<rparr>) \<and>
   heap late_start_state ! 0 = [[(0, 0), (1, 0), (0, 1)]] \<and>
   read_occupancy_csv (late_start @ [[1, 0, 0, 1]]) 1 =
     Inr ([Occupancy 0 [(1, 0), (2, 0), (1, 1)]],
          [Occupancy 0 [[(0, 0), (1, 0), (0, 1)], [(1, 0), (2, 0), (1, 1)]],
           Occupancy 0 [[(0, 0), (1, 0), (0, 1)], [(1, 0), (2, 0), (1, 1)]]])"
  by code_simp

section \<open>Scenario A\<close>

text \<open>
  C2. With \<open>step_size = 1.0\<close> and the two intervals \<open>[0, 1]\<close> with polygon \<open>P1\<close> and
  \<open>[1, 2]\<close> with polygon \<open>P2\<close>, the coinciding occupancies are \<open>P1\<close> at time step 0 and
  \<open>P2\<close> at time step 1. The cumulative sequence holds the group \<open>{P1}\<close> at time step 0,
  twice (the initial occupancy of line 106 shares its list with the close-out of line
  120), and \<open>{P1, P2}\<close> at time step 1: each close-out rebinds \<^verbatim>\<open>shape_list\<close> to a
  fresh list that starts with the straddling polygon, so the list holds \<open>P2\<close> alone at
  the end.
\<close>

theorem scenario_A_result:
  assumes "length xs1 = length ys1" and "length xs2 = length ys2"
  shows "read_occupancy_csv [0 # xs1, 1 # ys1, 1 # xs2, 2 # ys2] 1 =
     Inr ([Occupancy 0 (zip xs1 ys1), Occupancy 1 (zip xs2 ys2)],
          [Occupancy 0 [zip xs1 ys1], Occupancy 0 [zip xs1 ys1],
           Occupancy 1 [zip xs1 ys1, zip xs2 ys2]]) \<and>
    (\<exists>st. process_rows 1 [0 # xs1, 1 # ys1, 1 # xs2, 2 # ys2] init_state = Inr st \<and>
       heap st ! shape_list st = [zip xs2 ys2])"
  using assms
  by (simp add: read_occupancy_csv_def loop_body_def process_pair_def init_state_def
      emit_initial_def classify_def emit_coinciding_def emit_cumulative_def unit_grid
      shape_list_append_def shape_list_reset_def coinciding_prediction_def
      cumulative_prediction_def Let_def)

theorem scenario_A_result_witness:
  "length [0, 1, 0 :: double] = length [0, 0, 1 :: double] \<and>
   length [1, 2, 1 :: double] = length [0, 0, 1 :: double] \<and>
   read_occupancy_csv scenario_A 1 =
     Inr ([Occupancy 0 [(0, 0), (1, 0), (0, 1)], Occupancy 1 [(1, 0), (2, 0), (1, 1)]],
          [Occupancy 0 [[(0, 0), (1, 0), (0, 1)]], Occupancy 0 [[(0, 0), (1, 0), (0, 1)]],
           Occupancy 1 [[(0, 0), (1, 0), (0, 1)], [(1, 0), (2, 0), (1, 1)]]])"
  using scenario_A_result [of "[0, 1, 0]" "[0, 0, 1]" "[1, 2, 1]" "[0, 0, 1]"]
  by (simp add: scenario_A_def)

section \<open>Coinciding time steps are cumulative time steps\<close>

lemma emit_initial_grows:
  "emit_initial s t0 st = Inr st' \<Longrightarrow>
     occupancies_coinciding st' = occupancies_coinciding st \<and>
     scenario_time_step st' = scenario_time_step st \<and>
     set (occupancies_cumulative st) \<subseteq> set (occupancies_cumulative st')"
  by (auto simp: emit_initial_def emit_cumulative_Inr split: if_splits)

lemma classify_grows:
  "classify s t0 t1 p st = Inr st' \<Longrightarrow>
     occupancies_coinciding st' = occupancies_coinciding st \<and>
     scenario_time_step st' = scenario_time_step st \<and>
     set (occupancies_cumulative st) \<subseteq> set (occupancies_cumulative st') \<and>
     (scenario_time_step st \<le> t1 \<longrightarrow>
        py_int (fdiv (scenario_time_step st) s) \<in> time_step ` set (occupancies_cumulative st'))"
  by (auto simp: classify_def emit_cumulative_Inr shape_list_append_def shape_list_reset_def
      split: if_splits sum.splits)

lemma emit_coinciding_grows:
  "emit_coinciding s t0 t1 p st = Inr st' \<Longrightarrow>
     occupancies_cumulative st' = occupancies_cumulative st \<and>
     (occupancies_coinciding st' = occupancies_coinciding st \<or>
      scenario_time_step st \<le> t1 \<and> occupancies_coinciding st' =
        occupancies_coinciding st @ [Occupancy (py_int (fdiv (scenario_time_step st) s)) p])"
  by (auto simp: emit_coinciding_def grid_index_def split: if_splits)

lemma sub_inv_process_pair:
  assumes "process_pair s t1 ys st = Inr st'" and "sub_inv st"
  shows "sub_inv st'"
proof -
  let ?p = "zip (points_buffer st) ys"
  from assms(1) obtain st1 st2 where 1: "emit_initial s (time_buf0 st) st = Inr st1"
    and 2: "classify s (time_buf0 st) t1 ?p st1 = Inr st2"
    and 3: "emit_coinciding s (time_buf0 st) t1 ?p st2 = Inr st'"
    by (auto simp: process_pair_def Let_def split: if_splits option.splits sum.splits)
  note a = emit_initial_grows [OF 1] and b = classify_grows [OF 2]
    and c = emit_coinciding_grows [OF 3]
  have sub: "time_step ` set (occupancies_coinciding st2) \<subseteq>
      time_step ` set (occupancies_cumulative st2)"
  proof -
    from a b have "set (occupancies_cumulative st) \<subseteq> set (occupancies_cumulative st2)"
      by blast
    then have "time_step ` set (occupancies_cumulative st) \<subseteq>
        time_step ` set (occupancies_cumulative st2)"
      by (rule image_mono)
    moreover from a b have "occupancies_coinciding st2 = occupancies_coinciding st"
      by simp
    ultimately show ?thesis
      using assms(2) unfolding sub_inv_def by simp
  qed
  from c show ?thesis
  proof (elim conjE disjE)
    assume "occupancies_cumulative st' = occupancies_cumulative st2"
      "occupancies_coinciding st' = occupancies_coinciding st2"
    with sub show ?thesis by (simp add: sub_inv_def)
  next
    assume *: "occupancies_cumulative st' = occupancies_cumulative st2"
      "scenario_time_step st2 \<le> t1"
      "occupancies_coinciding st' = occupancies_coinciding st2 @
        [Occupancy (py_int (fdiv (scenario_time_step st2) s)) ?p]"
    from b *(2) have "py_int (fdiv (scenario_time_step st2) s) \<in>
        time_step ` set (occupancies_cumulative st2)"
      by simp
    with sub * show ?thesis by (simp add: sub_inv_def)
  qed
qed

lemma sub_inv_frame [simp]:
  "sub_inv (st\<lparr>flag := f\<rparr>) = sub_inv st"
  "sub_inv (st\<lparr>time_buf0 := t\<rparr>) = sub_inv st"
  "sub_inv (st\<lparr>points_buffer := xs\<rparr>) = sub_inv st"
  by (simp_all add: sub_inv_def)

lemma sub_inv_loop_body:
  "loop_body s r st = Inr st' \<Longrightarrow> sub_inv st \<Longrightarrow> sub_inv st'"
  by (auto simp: loop_body_def split: if_splits list.splits sum.splits
      dest: sub_inv_process_pair)

lemma sub_inv_process_rows:
  "process_rows s rows st = Inr st' \<Longrightarrow> sub_inv st \<Longrightarrow> sub_inv st'"
  by (induction rows arbitrary: st) (auto split: sum.splits dest: sub_inv_loop_body)

lemma sub_inv_init: "sub_inv init_state"
  by (simp add: sub_inv_def init_state_def)

lemma time_step_cumulative_prediction:
  "map time_step (cumulative_prediction st) = map time_step (occupancies_cumulative st)"
  by (simp add: cumulative_prediction_def comp_def)

text \<open>
  C9. Whenever the reconstructor returns, every time step of the coinciding sequence is
  a time step of the cumulative sequence. The rows are any list of rows, so the same
  holds of the two sequences as they stand after each row of a source: the cumulative
  occupancy of a time step is appended (line 114 or 120) before the coinciding one
  (line 129).
\<close>

theorem coinciding_index_in_cumulative:
  assumes "read_occupancy_csv rows s = Inr (coinciding, cumulative)"
  shows "time_step ` set coinciding \<subseteq> time_step ` set cumulative"
proof -
  from assms obtain st where st: "process_rows s rows init_state = Inr st"
    and co: "coinciding = occupancies_coinciding st"
    and cu: "cumulative = cumulative_prediction st"
    by (auto simp: read_occupancy_csv_def coinciding_prediction_def split: sum.splits)
  from sub_inv_process_rows [OF st sub_inv_init]
  have "time_step ` set (occupancies_coinciding st) \<subseteq>
      set (map time_step (occupancies_cumulative st))"
    by (simp add: sub_inv_def)
  then show ?thesis
    unfolding co cu time_step_cumulative_prediction [symmetric] by simp
qed

theorem coinciding_index_in_cumulative_witness:
  "read_occupancy_csv scenario_A 1 =
     Inr ([Occupancy 0 [(0, 0), (1, 0), (0, 1)], Occupancy 1 [(1, 0), (2, 0), (1, 1)]],
          [Occupancy 0 [[(0, 0), (1, 0), (0, 1)]], Occupancy 0 [[(0, 0), (1, 0), (0, 1)]],
           Occupancy 1 [[(0, 0), (1, 0), (0, 1)], [(1, 0), (2, 0), (1, 1)]]]) \<and>
   time_step ` set [Occupancy 0 [(0, 0), (1, 0), (0 :: double, 1 :: double)],
                    Occupancy 1 [(1, 0), (2, 0), (1, 1)]] \<subseteq>
   time_step ` set [Occupancy 0 [[(0, 0), (1, 0), (0 :: double, 1 :: double)]],
                    Occupancy 0 [[(0, 0), (1, 0), (0, 1)]],
                    Occupancy 1 [[(0, 0), (1, 0), (0, 1)], [(1, 0), (2, 0), (1, 1)]]]"
proof -
  have h: "read_occupancy_csv scenario_A 1 =
     Inr ([Occupancy 0 [(0, 0), (1, 0), (0, 1)], Occupancy 1 [(1, 0), (2, 0), (1, 1)]],
          [Occupancy 0 [[(0, 0), (1, 0), (0, 1)]], Occupancy 0 [[(0, 0), (1, 0), (0, 1)]],
           Occupancy 1 [[(0, 0), (1, 0), (0, 1)], [(1, 0), (2, 0), (1, 1)]]])"
    by code_simp
  from coinciding_index_in_cumulative [OF h] h show ?thesis by blast
qed

section \<open>Order of the time steps\<close>

lemma grid_inv_init: "grid_inv s init_state"
  by (simp add: grid_inv_def init_state_def)

lemma grid_inv_shape_list_append [simp]:
  "grid_inv s (shape_list_append p st) = grid_inv s st"
  by (simp add: grid_inv_def shape_list_append_def)

lemma grid_inv_shape_list_reset [simp]:
  "grid_inv s (shape_list_reset st) = grid_inv s st"
  by (simp add: grid_inv_def shape_list_reset_def)

lemma grid_inv_frame [simp]:
  "grid_inv s (st\<lparr>flag := f\<rparr>) = grid_inv s st"
  "grid_inv s (st\<lparr>time_buf0 := t\<rparr>) = grid_inv s st"
  "grid_inv s (st\<lparr>points_buffer := xs\<rparr>) = grid_inv s st"
  by (simp_all add: grid_inv_def)

lemma grid_inv_emit_cumulative:
  assumes "emit_cumulative s st = Inr st'" and "grid_inv s st"
  shows "grid_inv s st'"
proof -
  let ?n = "length (occupancies_coinciding st)"
  from assms(2) obtain ks where g: "scenario_time_step st = grid_time s ?n"
    and c: "map time_step (occupancies_coinciding st) = map (grid_idx s) [0..<?n]"
    and ks: "map time_step (occupancies_cumulative st) = map (grid_idx s) ks" "sorted ks"
      "\<forall>k\<in>set ks. k \<le> ?n"
    by (auto simp: grid_inv_def)
  from assms(1) have st': "st' = st\<lparr>occupancies_cumulative := occupancies_cumulative st @
       [Occupancy (py_int (fdiv (scenario_time_step st) s)) (shape_list st)]\<rparr>"
    by (simp add: emit_cumulative_Inr)
  have "map time_step (occupancies_cumulative st') = map (grid_idx s) (ks @ [?n])"
    using ks(1) g by (simp add: st' grid_idx_def)
  moreover have "sorted (ks @ [?n])"
    using ks(2,3) by (simp add: sorted_append)
  moreover have "\<forall>k\<in>set (ks @ [?n]). k \<le> length (occupancies_coinciding st')"
    using ks(3) by (simp add: st')
  ultimately have "\<exists>ks'. map time_step (occupancies_cumulative st') = map (grid_idx s) ks' \<and>
      sorted ks' \<and> (\<forall>k\<in>set ks'. k \<le> length (occupancies_coinciding st'))"
    by blast
  moreover have "scenario_time_step st' = scenario_time_step st"
    "occupancies_coinciding st' = occupancies_coinciding st"
    by (simp_all add: st')
  ultimately show ?thesis
    unfolding grid_inv_def using g c by simp
qed

lemma grid_inv_emit_initial:
  "emit_initial s t0 st = Inr st' \<Longrightarrow> grid_inv s st \<Longrightarrow> grid_inv s st'"
  by (auto simp: emit_initial_def split: if_splits dest: grid_inv_emit_cumulative)

lemma grid_inv_classify:
  "classify s t0 t1 p st = Inr st' \<Longrightarrow> grid_inv s st \<Longrightarrow> grid_inv s st'"
  by (auto simp: classify_def split: if_splits sum.splits
      dest!: grid_inv_emit_cumulative)

lemma grid_inv_emit_coinciding:
  assumes "emit_coinciding s t0 t1 p st = Inr st'" and "grid_inv s st"
  shows "grid_inv s st'"
proof (cases "scenario_time_step st \<le> t1 \<and> t0 \<le> scenario_time_step st")
  case False
  with assms show ?thesis by (simp add: emit_coinciding_def)
next
  case True
  let ?n = "length (occupancies_coinciding st)"
  from assms(2) obtain ks where g: "scenario_time_step st = grid_time s ?n"
    and c: "map time_step (occupancies_coinciding st) = map (grid_idx s) [0..<?n]"
    and ks: "map time_step (occupancies_cumulative st) = map (grid_idx s) ks" "sorted ks"
      "\<forall>k\<in>set ks. k \<le> ?n"
    by (auto simp: grid_inv_def)
  from assms(1) True have st': "st' = st\<lparr>occupancies_coinciding :=
      occupancies_coinciding st @ [Occupancy (py_int (fdiv (scenario_time_step st) s)) p],
      scenario_time_step := fadd (scenario_time_step st) s\<rparr>"
    by (auto simp: emit_coinciding_def grid_index_def split: if_splits)
  have "\<forall>k\<in>set ks. k \<le> length (occupancies_coinciding st')"
    using ks(3) by (auto simp: st')
  with ks(1,2) have "\<exists>ks. map time_step (occupancies_cumulative st') = map (grid_idx s) ks \<and>
      sorted ks \<and> (\<forall>k\<in>set ks. k \<le> length (occupancies_coinciding st'))"
    by (auto simp: st')
  then show ?thesis
    unfolding grid_inv_def using g c by (simp add: st' grid_idx_def)
qed

lemma grid_inv_process_pair:
  "process_pair s t1 ys st = Inr st' \<Longrightarrow> grid_inv s st \<Longrightarrow> grid_inv s st'"
  by (auto simp: process_pair_def Let_def split: if_splits option.splits sum.splits
      dest!: grid_inv_emit_initial grid_inv_classify grid_inv_emit_coinciding)

lemma grid_inv_loop_body:
  "loop_body s r st = Inr st' \<Longrightarrow> grid_inv s st \<Longrightarrow> grid_inv s st'"
  by (auto simp: loop_body_def split: if_splits list.splits sum.splits
      dest: grid_inv_process_pair)

lemma grid_inv_process_rows:
  "process_rows s rows st = Inr st' \<Longrightarrow> grid_inv s st \<Longrightarrow> grid_inv s st'"
  by (induction rows arbitrary: st) (auto split: sum.splits dest: grid_inv_loop_body)

lemma exact_grid_idx: "exact_grid s n \<Longrightarrow> k \<le> n \<Longrightarrow> grid_idx s k = int k"
  by (auto simp: exact_grid_def list_all_iff simp del: upt_Suc)

lemma sorted_wrt_int_upt: "sorted_wrt (<) (map int [0..<n])"
  by (simp add: sorted_wrt_map sorted_wrt_iff_nth_less)

text \<open>
  The time steps of a run, whatever the rounding does: the grid time is the step size
  added once per coinciding occupancy, the \<open>k\<close>-th coinciding occupancy has the time step
  computed from the \<open>k\<close>-th grid time, and the cumulative occupancies follow the grid
  times in order, possibly several for one grid time.
\<close>

lemma time_steps_of_run:
  assumes "read_occupancy_csv rows s = Inr (coinciding, cumulative)"
  shows "map time_step coinciding = map (grid_idx s) [0..<length coinciding] \<and>
     (\<exists>ks. map time_step cumulative = map (grid_idx s) ks \<and> sorted ks \<and>
        (\<forall>k\<in>set ks. k \<le> length coinciding))"
proof -
  from assms obtain st where st: "process_rows s rows init_state = Inr st"
    and co: "coinciding = occupancies_coinciding st"
    and cu: "cumulative = cumulative_prediction st"
    by (auto simp: read_occupancy_csv_def coinciding_prediction_def split: sum.splits)
  from grid_inv_process_rows [OF st grid_inv_init] show ?thesis
    by (simp add: grid_inv_def co cu time_step_cumulative_prediction)
qed

text \<open>
  C1 (amended). Where the truncated quotient \<^verbatim>\<open>int(scenario_time_step/step_size)\<close> is
  exact for the grid times of the run, the coinciding sequence that the reconstructor
  returns is strictly increasing in time step, and the cumulative sequence is
  non-decreasing: a time step can appear there more than once.
\<close>

theorem indices_increasing_on_exact_grid:
  assumes run: "read_occupancy_csv rows s = Inr (coinciding, cumulative)"
    and ex: "exact_grid s (length coinciding)"
  shows "sorted_wrt (<) (map time_step coinciding) \<and> sorted (map time_step cumulative)"
proof -
  from time_steps_of_run [OF run] obtain ks
    where c: "map time_step coinciding = map (grid_idx s) [0..<length coinciding]"
    and ks: "map time_step cumulative = map (grid_idx s) ks" "sorted ks"
      "\<forall>k\<in>set ks. k \<le> length coinciding"
    by blast
  have "map (grid_idx s) [0..<length coinciding] = map int [0..<length coinciding]"
    using ex by (auto simp: exact_grid_idx)
  with c have 1: "sorted_wrt (<) (map time_step coinciding)"
    by (simp add: sorted_wrt_int_upt)
  have "map (grid_idx s) ks = map int ks"
    using ex ks(3) by (auto simp: exact_grid_idx)
  with ks(1) have "map time_step cumulative = map int ks"
    by simp
  moreover have "sorted (map int ks)"
    using ks(2) by (simp add: sorted_map)
  ultimately have 2: "sorted (map time_step cumulative)"
    by simp
  from 1 2 show ?thesis ..
qed

theorem indices_increasing_on_exact_grid_witness:
  "read_occupancy_csv [[0, 0, 1, 0], [1, 0, 0, 1], [2, 1, 2, 1], [2, 0, 0, 1]] 2 =
     Inr ([Occupancy 0 [(0, 0), (1, 0), (0, 1)], Occupancy 1 [(1, 0), (2, 0), (1, 1)]],
          [Occupancy 0 [[(0, 0), (1, 0), (0, 1)]], Occupancy 0 [[(0, 0), (1, 0), (0, 1)]],
           Occupancy 1 [[(0, 0), (1, 0), (0, 1)], [(1, 0), (2, 0), (1, 1)]]]) \<and>
   exact_grid 2 (length [Occupancy 0 [(0, 0), (1, 0), (0 :: double, 1 :: double)],
                         Occupancy 1 [(1, 0), (2, 0), (1, 1)]]) \<and>
   sorted_wrt (<) (map time_step [Occupancy 0 [(0, 0), (1, 0), (0 :: double, 1 :: double)],
                                  Occupancy 1 [(1, 0), (2, 0), (1, 1)]]) \<and>
   sorted (map time_step [Occupancy 0 [[(0, 0), (1, 0), (0 :: double, 1 :: double)]],
                          Occupancy 0 [[(0, 0), (1, 0), (0, 1)]],
                          Occupancy 1 [[(0, 0), (1, 0), (0, 1)], [(1, 0), (2, 0), (1, 1)]]])"
proof -
  have h: "read_occupancy_csv [[0, 0, 1, 0], [1, 0, 0, 1], [2, 1, 2, 1], [2, 0, 0, 1]] 2 =
     Inr ([Occupancy 0 [(0, 0), (1, 0), (0, 1)], Occupancy 1 [(1, 0), (2, 0), (1, 1)]],
          [Occupancy 0 [[(0, 0), (1, 0), (0, 1)]], Occupancy 0 [[(0, 0), (1, 0), (0, 1)]],
           Occupancy 1 [[(0, 0), (1, 0), (0, 1)], [(1, 0), (2, 0), (1, 1)]]])"
    by code_simp
  have e: "exact_grid 2 (length [Occupancy 0 [(0, 0), (1, 0), (0 :: double, 1 :: double)],
                                 Occupancy 1 [(1, 0), (2, 0), (1, 1)]])"
    by code_simp
  from indices_increasing_on_exact_grid [OF h e] h e show ?thesis by blast
qed

text \<open>
  C1 as stated fails on Scenario A: time step 0 appears twice in the cumulative
  sequence, once for the initial occupancy of line 106 and once for the close-out of
  the first interval.
\<close>

theorem cumulative_index_repeats:
  "read_occupancy_csv scenario_A 1 =
     Inr ([Occupancy 0 [(0, 0), (1, 0), (0, 1)], Occupancy 1 [(1, 0), (2, 0), (1, 1)]],
          [Occupancy 0 [[(0, 0), (1, 0), (0, 1)]], Occupancy 0 [[(0, 0), (1, 0), (0, 1)]],
           Occupancy 1 [[(0, 0), (1, 0), (0, 1)], [(1, 0), (2, 0), (1, 1)]]]) \<and>
   \<not> distinct (map time_step
       [Occupancy 0 [[(0, 0), (1, 0), (0 :: double, 1 :: double)]],
        Occupancy 0 [[(0, 0), (1, 0), (0, 1)]],
        Occupancy 1 [[(0, 0), (1, 0), (0, 1)], [(1, 0), (2, 0), (1, 1)]]])"
  by code_simp

section \<open>Truncation of the grid quotient\<close>

text \<open>
  C10. The grid time advances by one addition of the step size per coinciding occupancy
  and never otherwise (\<open>time_steps_of_run\<close>), but the time step computed from it is the
  truncated floating-point quotient, which is not always the number of additions. With
  \<open>step_size = 0.1\<close> the seventh grid time is the double \<open>0.6\<close>, the quotient
  \<open>0.6 / 0.1\<close> is the double \<open>5.999999999999999\<close> and \<^verbatim>\<open>int\<close> gives 5: on the seven
  intervals of \<open>tenths\<close> the coinciding time steps are 0, 1, 2, 3, 4, 5, 5.
\<close>

theorem grid_index_truncates:
  "read_occupancy_csv tenths (to_double (1 / 10)) =
     Inr ([Occupancy 0 [(0, 0), (1, 0), (0, 1)], Occupancy 1 [(0, 0), (1, 0), (0, 1)],
           Occupancy 2 [(0, 0), (1, 0), (0, 1)], Occupancy 3 [(0, 0), (1, 0), (0, 1)],
           Occupancy 4 [(0, 0), (1, 0), (0, 1)], Occupancy 5 [(0, 0), (1, 0), (0, 1)],
           Occupancy 5 [(0, 0), (1, 0), (0, 1)]],
          [Occupancy 0 [[(0, 0), (1, 0), (0, 1)]],
           Occupancy 0 [[(0, 0), (1, 0), (0, 1)]],
           Occupancy 1 [[(0, 0), (1, 0), (0, 1)], [(0, 0), (1, 0), (0, 1)]],
           Occupancy 2 [[(0, 0), (1, 0), (0, 1)], [(0, 0), (1, 0), (0, 1)]],
           Occupancy 3 [[(0, 0), (1, 0), (0, 1)], [(0, 0), (1, 0), (0, 1)]],
           Occupancy 4 [[(0, 0), (1, 0), (0, 1)], [(0, 0), (1, 0), (0, 1)]],
           Occupancy 5 [[(0, 0), (1, 0), (0, 1)], [(0, 0), (1, 0), (0, 1)]],
           Occupancy 5 [[(0, 0), (1, 0), (0, 1)], [(0, 0), (1, 0), (0, 1)]]])"
  by code_simp

end
